theory Spec2Isabelle
  imports Main "HOL-Library.AList" "HOL-Library.Word"
begin

section \<open>Errors\<close>

text \<open>
  The errors that reach the store from below: what package \<open>os\<close> and \<open>encoding/json\<close>
  return. \<open>OsErrNotExist\<close> stands for every error \<open>err\<close> with
  \<open>errors.Is(err, os.ErrNotExist)\<close>; the other two carry their message.
\<close>

datatype cause = OsErrNotExist | OsError string | JsonError string

fun is_os_ErrNotExist :: "cause \<Rightarrow> bool" where
  "is_os_ErrNotExist OsErrNotExist = True"
| "is_os_ErrNotExist (OsError m) = False"
| "is_os_ErrNotExist (JsonError m) = False"

text \<open>
  The errors the store returns (errors.go). \<open>ErrNotExist k\<close> is
  \<open>fmt.Errorf("%w: %s", ErrNotExist, key)\<close>; \<open>ErrInternal m c\<close> is
  \<open>fmt.Errorf("%w: <m>: %s", ErrInternal, err)\<close>, which wraps the sentinel and prints the
  cause. A callback returns a Go \<open>error\<close>: any of these, or \<open>Custom e\<close>, an
  error that this package did not make.
\<close>

datatype 'e error = ErrNotExist string | ErrInternal string cause | Custom 'e


section \<open>Strings: strings.ToLower, url.PathEscape, filepath\<close>

definition isASCII :: "string \<Rightarrow> bool" where
  "isASCII s = list_all (\<lambda>c. (of_char c :: nat) < 128) s"

definition is_upper :: "char \<Rightarrow> bool" where
  "is_upper c = (65 \<le> (of_char c :: nat) \<and> (of_char c :: nat) \<le> 90)"

definition is_lower :: "char \<Rightarrow> bool" where
  "is_lower c = (97 \<le> (of_char c :: nat) \<and> (of_char c :: nat) \<le> 122)"

definition is_digit :: "char \<Rightarrow> bool" where
  "is_digit c = (48 \<le> (of_char c :: nat) \<and> (of_char c :: nat) \<le> 57)"

text \<open>
  \<open>c += 'a' - 'A'\<close> on an upper-case letter adds 32 to a byte whose bit 5 is clear, so it
  sets that bit; \<open>c -= 'a' - 'A'\<close> on a lower-case letter clears it.
\<close>

fun with_bit5 :: "bool \<Rightarrow> char \<Rightarrow> char" where
  "with_bit5 b (Char b0 b1 b2 b3 b4 b5 b6 b7) = Char b0 b1 b2 b3 b4 b b6 b7"

definition lower_byte :: "char \<Rightarrow> char" where
  "lower_byte c = (if is_upper c then with_bit5 True c else c)"

definition upper_byte :: "char \<Rightarrow> char" where
  "upper_byte c = (if is_lower c then with_bit5 False c else c)"

text \<open>
  UTF-8, as package \<open>unicode/utf8\<close> reads and writes it. \<open>accept\<close> gives, for a
  leading byte, the ranges its continuation bytes must lie in. \<open>runes_from 0 s\<close> is the
  sequence of characters that \<open>for _, c := range s\<close> yields: a byte that does not start a
  well-formed sequence yields \<open>RuneError\<close> and is passed alone. The first argument counts
  the bytes of the current sequence that are still to pass.
\<close>

definition byte_of :: "nat \<Rightarrow> char" where
  "byte_of n =
     Char (odd n) (odd (n div 2)) (odd (n div 4)) (odd (n div 8))
          (odd (n div 16)) (odd (n div 32)) (odd (n div 64)) (odd (n div 128))"

definition byte_in :: "nat \<times> nat \<Rightarrow> char \<Rightarrow> bool" where
  "byte_in r c = (fst r \<le> (of_char c :: nat) \<and> (of_char c :: nat) \<le> snd r)"

fun tail_ok :: "(nat \<times> nat) list \<Rightarrow> string \<Rightarrow> bool" where
  "tail_ok [] bs = True"
| "tail_ok (r # rs) [] = False"
| "tail_ok (r # rs) (b # bs) = (byte_in r b \<and> tail_ok rs bs)"

definition accept :: "nat \<Rightarrow> (nat \<times> nat) list option" where
  "accept x =
     (if x < 0xC2 then None
      else if x < 0xE0 then Some [(0x80, 0xBF)]
      else if x = 0xE0 then Some [(0xA0, 0xBF), (0x80, 0xBF)]
      else if x = 0xED then Some [(0x80, 0x9F), (0x80, 0xBF)]
      else if x < 0xF0 then Some [(0x80, 0xBF), (0x80, 0xBF)]
      else if x = 0xF0 then Some [(0x90, 0xBF), (0x80, 0xBF), (0x80, 0xBF)]
      else if x < 0xF4 then Some [(0x80, 0xBF), (0x80, 0xBF), (0x80, 0xBF)]
      else if x = 0xF4 then Some [(0x80, 0x8F), (0x80, 0xBF), (0x80, 0xBF)]
      else None)"

definition RuneError :: nat where
  "RuneError = 0xFFFD"

fun cont_value :: "nat \<Rightarrow> string \<Rightarrow> nat" where
  "cont_value v [] = v"
| "cont_value v (b # bs) = cont_value (v * 64 + (of_char b :: nat) mod 64) bs"

definition lead_value :: "nat \<Rightarrow> nat \<Rightarrow> nat" where
  "lead_value n x = (if n = 1 then x mod 32 else if n = 2 then x mod 16 else x mod 8)"

fun runes_from :: "nat \<Rightarrow> string \<Rightarrow> nat list" where
  "runes_from k [] = []"
| "runes_from (Suc k) (b # bs) = runes_from k bs"
| "runes_from 0 (b # bs) =
     (if (of_char b :: nat) < 128 then of_char b # runes_from 0 bs
      else case accept (of_char b) of
             None \<Rightarrow> RuneError # runes_from 0 bs
           | Some rs \<Rightarrow>
               if tail_ok rs bs
               then cont_value (lead_value (length rs) (of_char b)) (take (length rs) bs)
                      # runes_from (length rs) bs
               else RuneError # runes_from 0 bs)"

text \<open>
  \<open>utf8.AppendRune\<close>: one to four bytes; a surrogate or a value above U+10FFFF is written
  as U+FFFD.
\<close>

definition encode_rune :: "nat \<Rightarrow> string" where
  "encode_rune r =
     (if r < 0x80 then [byte_of r]
      else if r < 0x800 then [byte_of (0xC0 + r div 64), byte_of (0x80 + r mod 64)]
      else if (0xD800 \<le> r \<and> r \<le> 0xDFFF) \<or> 0x10FFFF < r then [CHR 0xEF, CHR 0xBF, CHR 0xBD]
      else if r < 0x10000 then
        [byte_of (0xE0 + r div 4096), byte_of (0x80 + (r div 64) mod 64), byte_of (0x80 + r mod 64)]
      else
        [byte_of (0xF0 + r div 262144), byte_of (0x80 + (r div 4096) mod 64),
         byte_of (0x80 + (r div 64) mod 64), byte_of (0x80 + r mod 64)])"

text \<open>
  \<open>unicode.ToLower\<close>: ASCII is decided in the function itself; above ASCII the lower
  case comes from the Unicode tables, \<open>unicode.To(unicode.LowerCase, r)\<close>, which are the
  parameter \<open>tbl\<close>.
\<close>

definition unicode_ToLower :: "(nat \<Rightarrow> nat) \<Rightarrow> nat \<Rightarrow> nat" where
  "unicode_ToLower tbl r =
     (if r \<le> 0x7F then (if 65 \<le> r \<and> r \<le> 90 then r + 32 else r) else tbl r)"

text \<open>
  \<open>strings.Map(mapping, s)\<close>: the string of the mapped characters of \<open>s\<close>, each written
  in UTF-8.
\<close>

definition strings_Map :: "(nat \<Rightarrow> nat) \<Rightarrow> string \<Rightarrow> string" where
  "strings_Map f s = concat (map (\<lambda>r. encode_rune (f r)) (runes_from 0 s))"

text \<open>
  \<open>strings.ToLower\<close>: a string of ASCII bytes has \<open>'A'..'Z'\<close> moved to \<open>'a'..'z'\<close>
  byte by byte; any other string goes through \<open>strings.Map(unicode.ToLower, s)\<close>.
\<close>

definition strings_ToLower :: "(nat \<Rightarrow> nat) \<Rightarrow> string \<Rightarrow> string" where
  "strings_ToLower tbl s =
     (if isASCII s then map lower_byte s else strings_Map (unicode_ToLower tbl) s)"

text \<open>
  \<open>url.PathEscape\<close> (mode \<open>encodePathSegment\<close>): letters, digits and \<open>-_.~\<close> stay, of
  the reserved bytes \<open>$&+:=@\<close> stay, every other byte becomes \<open>%XX\<close> in upper-case hex.
\<close>

definition shouldEscape :: "char \<Rightarrow> bool" where
  "shouldEscape c =
     (if is_lower c \<or> is_upper c \<or> is_digit c then False
      else if c \<in> set ''-_.~'' then False
      else if c \<in> set ''$&+,/:;=?@'' then c \<in> set ''/;,?''
      else True)"

definition upperhex :: "nat \<Rightarrow> char" where
  "upperhex n = ''0123456789ABCDEF'' ! (n mod 16)"

fun url_PathEscape :: "string \<Rightarrow> string" where
  "url_PathEscape [] = []"
| "url_PathEscape (c # cs) =
     (if shouldEscape c
      then CHR ''%'' # upperhex ((of_char c :: nat) div 16) # upperhex (of_char c) # url_PathEscape cs
      else c # url_PathEscape cs)"

text \<open>
  \<open>filepath.Ext\<close>: the suffix from the last dot of the last path element, empty when that
  element has no dot. \<open>ext_scan\<close> walks the reversed name as the source's loop walks it
  from the end.
\<close>

fun ext_scan :: "string \<Rightarrow> string \<Rightarrow> string" where
  "ext_scan [] acc = []"
| "ext_scan (c # cs) acc =
     (if c = CHR ''/'' then []
      else if c = CHR ''.'' then c # acc
      else ext_scan cs (c # acc))"

definition filepath_Ext :: "string \<Rightarrow> string" where
  "filepath_Ext p = ext_scan (rev p) []"

text \<open>
  A path below the store's directory is kept as its two components: the directory as
  given and the name of the child. \<open>url_PathEscape\<close> never produces a separator, and
  \<open>Range\<close> joins names that the listing returned, so every path the store builds is such a
  child.
\<close>

type_synonym path = "string \<times> string"

definition filepath_Join :: "string \<Rightarrow> string \<Rightarrow> path" where
  "filepath_Join d name = (d, name)"

text \<open>
  The text of the joined path, which is what the system call receives: \<open>filepath.Join\<close>
  drops an empty first element and returns \<open>filepath.Clean\<close> of the elements joined by
  a separator. \<open>Clean\<close> drops empty and \<open>.\<close> elements and resolves \<open>..\<close> against the
  element before it; \<open>clean_elems\<close> keeps the elements written so far in reverse.
\<close>

fun split_on :: "char \<Rightarrow> string \<Rightarrow> string list" where
  "split_on c [] = [[]]"
| "split_on c (x # xs) =
     (if x = c then [] # split_on c xs
      else case split_on c xs of w # ws \<Rightarrow> (x # w) # ws | [] \<Rightarrow> [[x]])"

fun clean_elems :: "bool \<Rightarrow> string list \<Rightarrow> string list \<Rightarrow> string list" where
  "clean_elems rooted [] out = rev out"
| "clean_elems rooted (e # es) out =
     (if e = [] \<or> e = ''.'' then clean_elems rooted es out
      else if e = ''..'' then
        (case out of
           [] \<Rightarrow> if rooted then clean_elems rooted es [] else clean_elems rooted es [e]
         | t # ts \<Rightarrow> if t = ''..'' then clean_elems rooted es (e # out) else clean_elems rooted es ts)
      else clean_elems rooted es (e # out))"

fun join_elems :: "string list \<Rightarrow> string" where
  "join_elems [] = []"
| "join_elems [e] = e"
| "join_elems (e # es) = e @ CHR ''/'' # join_elems es"

definition filepath_Clean :: "string \<Rightarrow> string" where
  "filepath_Clean p =
     (if p = [] then ''.''
      else if hd p = CHR ''/'' then CHR ''/'' # join_elems (clean_elems True (split_on (CHR ''/'') p) [])
      else if clean_elems False (split_on (CHR ''/'') p) [] = [] then ''.''
      else join_elems (clean_elems False (split_on (CHR ''/'') p) []))"

definition path_text :: "path \<Rightarrow> string" where
  "path_text p =
     (if fst p = [] then filepath_Clean (snd p) else filepath_Clean (fst p @ CHR ''/'' # snd p))"

section \<open>JSON and the entry envelope\<close>

text \<open>
  A stream is represented by what \<open>json.Decoder\<close> scans from it: the first JSON value, or
  \<open>Malformed\<close> when there is none (an empty, truncated or syntactically invalid stream).
  Numbers are integer literals; the envelope never looks inside a number.
\<close>

datatype json =
    JNull | JBool bool | JNum int | JStr string | JArr "json list" | JObj "(string \<times> json) list"

datatype payload = Malformed | Doc json

text \<open>
  The store is generic in \<open>T\<close>. What it needs of \<open>T\<close> and of the Unicode tables:
  the lower-case mapping of the characters above ASCII, the zero value, \<open>json.Marshal\<close>
  at \<open>T\<close>, and decoding a JSON value into a variable of type \<open>T\<close> that holds a current
  value (the value left there, and the error if any). The codec of \<open>T\<close> fails with a
  message; the failure is a JSON error.
\<close>

record 'v env =
  unicode_lower :: "nat \<Rightarrow> nat"
  zeroT :: 'v
  encT :: "'v \<Rightarrow> string + json"
  decT :: "'v \<Rightarrow> json \<Rightarrow> 'v \<times> string option"

record 'v entry =
  Key :: string
  Value :: 'v

definition entry0 :: "'v env \<Rightarrow> 'v entry" where
  "entry0 E = \<lparr>Key = [], Value = zeroT E\<rparr>"

text \<open>
  Member names bind to struct fields ignoring case: ASCII letters fold to upper case, and
  the two non-ASCII letters that fold to ASCII ones (U+212A KELVIN SIGN, U+017F LONG S, in
  UTF-8) fold to \<open>K\<close> and \<open>S\<close>.
\<close>

fun foldName :: "string \<Rightarrow> string" where
  "foldName [] = []"
| "foldName (c # cs) =
     (if (of_char c :: nat) = 226 \<and> map of_char (take 2 cs) = [132, 170 :: nat]
        then CHR ''K'' # foldName (drop 2 cs)
      else if (of_char c :: nat) = 197 \<and> map of_char (take 1 cs) = [191 :: nat]
        then CHR ''S'' # foldName (drop 1 cs)
      else upper_byte c # foldName cs)"

fun saveError :: "cause option \<Rightarrow> cause option \<Rightarrow> cause option" where
  "saveError (Some e) new = Some e"
| "saveError None new = new"

definition type_error_msg :: string where
  "type_error_msg = ''json: cannot unmarshal value into Go struct field''"

definition type_error :: cause where
  "type_error = JsonError type_error_msg"

fun decode_Key :: "string \<Rightarrow> json \<Rightarrow> string \<times> cause option" where
  "decode_Key cur (JStr s) = (s, None)"
| "decode_Key cur JNull = (cur, None)"
| "decode_Key cur j = (cur, Some type_error)"

text \<open>
  One member of a JSON object, decoded into the entry: a name that folds to \<open>key\<close> or
  \<open>value\<close> sets that field, any other member is skipped. The first error is kept and
  decoding goes on.
\<close>

definition decode_member :: "'v env \<Rightarrow> string \<times> json \<Rightarrow> 'v entry \<times> cause option \<Rightarrow> 'v entry \<times> cause option" where
  "decode_member E m st =
     (if foldName (fst m) = ''KEY'' then
        (fst st\<lparr>Key := fst (decode_Key (Key (fst st)) (snd m))\<rparr>,
         saveError (snd st) (snd (decode_Key (Key (fst st)) (snd m))))
      else if foldName (fst m) = ''VALUE'' then
        (fst st\<lparr>Value := fst (decT E (Value (fst st)) (snd m))\<rparr>,
         saveError (snd st) (map_option JsonError (snd (decT E (Value (fst st)) (snd m)))))
      else st)"

text \<open>
  \<open>json.NewDecoder(r).Decode(&ent)\<close>: a stream without a JSON value is an error and leaves
  \<open>ent\<close> alone; \<open>null\<close> leaves \<open>ent\<close> alone and is no error; an object is decoded member by
  member; any other value is a type error.
\<close>

fun json_Decode :: "'v env \<Rightarrow> payload \<Rightarrow> 'v entry \<Rightarrow> 'v entry \<times> cause option" where
  "json_Decode E Malformed ent = (ent, Some (JsonError ''invalid JSON''))"
| "json_Decode E (Doc JNull) ent = (ent, None)"
| "json_Decode E (Doc (JObj ms)) ent = fold (decode_member E) ms (ent, None)"
| "json_Decode E (Doc j) ent = (ent, Some type_error)"

text \<open>
  The encoder writes a Go string coerced to valid UTF-8: a byte that does not start a
  well-formed sequence is written as U+FFFD, whose UTF-8 form is \<open>EF BF BD\<close>.
\<close>

definition replacement :: string where
  "replacement = [CHR 0xEF, CHR 0xBF, CHR 0xBD]"

text \<open>The first argument counts the bytes of the current sequence that are still to copy.\<close>

fun coerce_utf8 :: "nat \<Rightarrow> string \<Rightarrow> string" where
  "coerce_utf8 k [] = []"
| "coerce_utf8 (Suc k) (b # bs) = b # coerce_utf8 k bs"
| "coerce_utf8 0 (b # bs) =
     (if (of_char b :: nat) < 128 then b # coerce_utf8 0 bs
      else case accept (of_char b) of
             None \<Rightarrow> replacement @ coerce_utf8 0 bs
           | Some rs \<Rightarrow>
               if tail_ok rs bs then b # coerce_utf8 (length rs) bs
               else replacement @ coerce_utf8 0 bs)"

text \<open>
  \<open>json.NewEncoder(w).Encode(entry[T]{Key: key, Value: value})\<close>: the object with the two
  tagged fields in declaration order, or the error of marshalling the value.
\<close>

definition json_Encode :: "'v env \<Rightarrow> 'v entry \<Rightarrow> cause + payload" where
  "json_Encode E ent =
     (case encT E (Value ent) of
        Inl m \<Rightarrow> Inl (JsonError m)
      | Inr j \<Rightarrow> Inr (Doc (JObj [(''key'', JStr (coerce_utf8 0 (Key ent))), (''value'', j)])))"

section \<open>The file system under the store\<close>

text \<open>
  Package \<open>fstools\<close> and package \<open>os\<close> are outside the repository. The model gives them
  the behaviour the store relies on. A directory entry is a regular file with its
  content, a subdirectory (empty or not), an entry that exists but refuses every open and
  removal with an error, or a symbolic link whose target is missing, which a listing
  shows and an open does not find. The directory itself is missing, or it has its entries
  in listing order; \<open>BadDir\<close> is a directory path that refuses every access with an error:
  a directory without permission, with the entries it has, or a path that is a regular
  file, with none.
\<close>

datatype node = File payload | Subdir bool | Blocked string | Dangling

datatype dirstate = NoDir | BadDir string "(string \<times> node) list" | Dir "(string \<times> node) list"

type_synonym fsys = "string \<Rightarrow> dirstate"

datatype DirEntry = DirEntry (Name: string) (IsDir: bool)

fun node_IsDir :: "node \<Rightarrow> bool" where
  "node_IsDir (Subdir e) = True"
| "node_IsDir n = False"

definition fstools_ReadDir :: "fsys \<Rightarrow> string \<Rightarrow> cause + DirEntry list" where
  "fstools_ReadDir fs d =
     (case fs d of
        NoDir \<Rightarrow> Inl OsErrNotExist
      | BadDir m ch \<Rightarrow> Inl (OsError m)
      | Dir ch \<Rightarrow> Inr (map (\<lambda>p. DirEntry (fst p) (node_IsDir (snd p))) ch))"

text \<open>
  The limits of the system (Linux): a path text of \<open>PATH_MAX\<close> bytes or more and a name of
  more than \<open>NAME_MAX\<close> bytes are refused with \<open>ENAMETOOLONG\<close>. \<open>os_walk\<close> is the walk
  every system call on a path begins with: the path text is measured first, then the
  directory is looked for, then the name is measured and looked up in the directory.
\<close>

definition NAME_MAX :: nat where
  "NAME_MAX = 255"

definition PATH_MAX :: nat where
  "PATH_MAX = 4096"

definition ENAMETOOLONG :: cause where
  "ENAMETOOLONG = OsError ''file name too long''"

definition os_walk :: "fsys \<Rightarrow> path \<Rightarrow> cause + node option" where
  "os_walk fs p =
     (if PATH_MAX \<le> length (path_text p) then Inl ENAMETOOLONG
      else case fs (fst p) of
        NoDir \<Rightarrow> Inl OsErrNotExist
      | BadDir m ch \<Rightarrow> Inl (OsError m)
      | Dir ch \<Rightarrow> if NAME_MAX < length (snd p) then Inl ENAMETOOLONG else Inr (map_of ch (snd p)))"

text \<open>Opening a path for reading: the content of a regular file, or the error.\<close>

definition os_Open :: "fsys \<Rightarrow> path \<Rightarrow> cause + payload" where
  "os_Open fs p =
     (case os_walk fs p of
        Inl c \<Rightarrow> Inl c
      | Inr None \<Rightarrow> Inl OsErrNotExist
      | Inr (Some (File c)) \<Rightarrow> Inr c
      | Inr (Some (Subdir e)) \<Rightarrow> Inl (OsError ''is a directory'')
      | Inr (Some (Blocked m)) \<Rightarrow> Inl (OsError m)
      | Inr (Some Dangling) \<Rightarrow> Inl OsErrNotExist)"

text \<open>
  \<open>fstools.ReadFileFunc(path, f)\<close> opens the file and runs \<open>f\<close> on its stream. The
  callback of the store decodes into a variable it has captured; here the variable is
  passed in and returned.
\<close>

definition fstools_ReadFileFunc ::
  "fsys \<Rightarrow> path \<Rightarrow> (payload \<Rightarrow> 'a \<Rightarrow> 'a \<times> cause option) \<Rightarrow> 'a \<Rightarrow> 'a \<times> cause option" where
  "fstools_ReadFileFunc fs p f a =
     (case os_Open fs p of Inl c \<Rightarrow> (a, Some c) | Inr r \<Rightarrow> f r a)"

text \<open>
  \<open>fstools.WriteFileFunc(path, f)\<close> creates missing parent directories and replaces the
  file by what \<open>f\<close> writes. The callback of the store writes one encoded entry or fails;
  its outcome is the third argument. A write that fails leaves the file system as it was.
\<close>

definition fstools_WriteFileFunc :: "fsys \<Rightarrow> path \<Rightarrow> cause + payload \<Rightarrow> cause option \<times> fsys" where
  "fstools_WriteFileFunc fs p w =
     (if PATH_MAX \<le> length (path_text p) then (Some ENAMETOOLONG, fs)
      else case fs (fst p) of
        BadDir m ch \<Rightarrow> (Some (OsError m), fs)
      | NoDir \<Rightarrow>
          if NAME_MAX < length (snd p) then (Some ENAMETOOLONG, fs)
          else (case w of
                  Inl c \<Rightarrow> (Some c, fs)
                | Inr c \<Rightarrow> (None, fs(fst p := Dir [(snd p, File c)])))
      | Dir ch \<Rightarrow>
          if NAME_MAX < length (snd p) then (Some ENAMETOOLONG, fs)
          else (case map_of ch (snd p) of
                  Some (Subdir e) \<Rightarrow> (Some (OsError ''is a directory''), fs)
                | Some (Blocked m) \<Rightarrow> (Some (OsError m), fs)
                | _ \<Rightarrow>
                    (case w of
                       Inl c \<Rightarrow> (Some c, fs)
                     | Inr c \<Rightarrow> (None, fs(fst p := Dir (AList.update (snd p) (File c) ch))))))"

text \<open>\<open>fstools.Exists\<close>: whether \<open>os.Stat\<close> finds something at the path.\<close>

definition fstools_Exists :: "fsys \<Rightarrow> path \<Rightarrow> bool" where
  "fstools_Exists fs p =
     (case os_walk fs p of
        Inl c \<Rightarrow> False
      | Inr None \<Rightarrow> False
      | Inr (Some Dangling) \<Rightarrow> False
      | Inr (Some n) \<Rightarrow> True)"

text \<open>
  \<open>os.Remove\<close>: removes a file, a dangling link or an empty directory; fails on a missing
  path, a directory that is not empty and an entry that refuses.
\<close>

definition os_Remove :: "fsys \<Rightarrow> path \<Rightarrow> cause option \<times> fsys" where
  "os_Remove fs p =
     (case os_walk fs p of
        Inl c \<Rightarrow> (Some c, fs)
      | Inr None \<Rightarrow> (Some OsErrNotExist, fs)
      | Inr (Some (Subdir False)) \<Rightarrow> (Some (OsError ''directory not empty''), fs)
      | Inr (Some (Blocked m)) \<Rightarrow> (Some (OsError m), fs)
      | Inr (Some n) \<Rightarrow>
          (case fs (fst p) of
             Dir ch \<Rightarrow> (None, fs(fst p := Dir (AList.delete (snd p) ch)))
           | _ \<Rightarrow> (Some OsErrNotExist, fs)))"

section \<open>The store (storage.go)\<close>

text \<open>
  The lock is not part of the model: every operation runs alone, from a file system to
  a result and a file system.
\<close>

record Storage =
  dir :: string

definition New :: "string \<Rightarrow> Storage" where
  "New d = \<lparr>dir = d\<rparr>"

definition key_path :: "'v env \<Rightarrow> Storage \<Rightarrow> string \<Rightarrow> path" where
  "key_path E S key =
     filepath_Join (dir S) (url_PathEscape (strings_ToLower (unicode_lower E) key) @ ''.json'')"

definition Get :: "'v env \<Rightarrow> Storage \<Rightarrow> fsys \<Rightarrow> string \<Rightarrow> 'e error + 'v" where
  "Get E S fs key0 =
     (let key = strings_ToLower (unicode_lower E) key0;
          path = filepath_Join (dir S) (url_PathEscape key @ ''.json'')
      in case fstools_ReadFileFunc fs path (json_Decode E) (entry0 E) of
           (ent, Some err) \<Rightarrow>
             if is_os_ErrNotExist err then Inl (ErrNotExist key)
             else Inl (ErrInternal ''failed to get JSON'' err)
         | (ent, None) \<Rightarrow> Inr (Value ent))"

definition Put :: "'v env \<Rightarrow> Storage \<Rightarrow> fsys \<Rightarrow> string \<Rightarrow> 'v \<Rightarrow> 'e error option \<times> fsys" where
  "Put E S fs key0 v =
     (let key = strings_ToLower (unicode_lower E) key0;
          path = filepath_Join (dir S) (url_PathEscape key @ ''.json'')
      in case fstools_WriteFileFunc fs path (json_Encode E \<lparr>Key = key, Value = v\<rparr>) of
           (Some err, fs') \<Rightarrow> (Some (ErrInternal ''failed to put JSON'' err), fs')
         | (None, fs') \<Rightarrow> (None, fs'))"

text \<open>
  The transform of \<open>Edit\<close> and the visitor of \<open>Range\<close> are closures of the caller: they
  may change the caller's own state \<open>'s\<close> and return an error. They get no access to the
  store's files.
\<close>

definition Edit ::
  "'v env \<Rightarrow> Storage \<Rightarrow> fsys \<Rightarrow> string \<Rightarrow> ('v \<Rightarrow> 's \<Rightarrow> ('e error + 'v) \<times> 's) \<Rightarrow> 's
     \<Rightarrow> ('e error + 'v) \<times> fsys \<times> 's" where
  "Edit E S fs key0 f s =
     (let key = strings_ToLower (unicode_lower E) key0;
          path = filepath_Join (dir S) (url_PathEscape key @ ''.json'')
      in case fstools_ReadFileFunc fs path (json_Decode E) (entry0 E) of
           (ent, Some err) \<Rightarrow>
             if is_os_ErrNotExist err then (Inl (ErrNotExist key), fs, s)
             else (Inl (ErrInternal ''failed to edit JSON'' err), fs, s)
         | (ent, None) \<Rightarrow>
             (case f (Value ent) s of
                (Inl err, s') \<Rightarrow> (Inl err, fs, s')
              | (Inr v, s') \<Rightarrow>
                  (case fstools_WriteFileFunc fs path (json_Encode E \<lparr>Key = key, Value = v\<rparr>) of
                     (Some err, fs') \<Rightarrow> (Inl (ErrInternal ''failed to edit JSON'' err), fs', s')
                   | (None, fs') \<Rightarrow> (Inr v, fs', s'))))"

definition Delete :: "'v env \<Rightarrow> Storage \<Rightarrow> fsys \<Rightarrow> string \<Rightarrow> 'e error option \<times> fsys" where
  "Delete E S fs key0 =
     (let key = strings_ToLower (unicode_lower E) key0;
          path = filepath_Join (dir S) (url_PathEscape key @ ''.json'')
      in if fstools_Exists fs path then
           (case os_Remove fs path of
              (Some err, fs') \<Rightarrow> (Some (ErrInternal ''failed to delete JSON'' err), fs')
            | (None, fs') \<Rightarrow> (None, fs'))
         else (None, fs))"

text \<open>The loop of \<open>Range\<close> over the listing, and \<open>Range\<close> itself.\<close>

fun Range_loop ::
  "'v env \<Rightarrow> Storage \<Rightarrow> fsys \<Rightarrow> (string \<Rightarrow> 'v \<Rightarrow> 's \<Rightarrow> 'e error option \<times> 's) \<Rightarrow> DirEntry list \<Rightarrow> 's
     \<Rightarrow> 'e error option \<times> 's" where
  "Range_loop E S fs f [] s = (None, s)"
| "Range_loop E S fs f (direntry # rest) s =
     (if IsDir direntry then Range_loop E S fs f rest s
      else if filepath_Ext (Name direntry) \<noteq> ''.json'' then Range_loop E S fs f rest s
      else
        (case fstools_ReadFileFunc fs (filepath_Join (dir S) (Name direntry)) (json_Decode E) (entry0 E) of
           (ent, Some err) \<Rightarrow>
             if is_os_ErrNotExist err then Range_loop E S fs f rest s
             else (Some (ErrInternal ''failed to range JSONs'' err), s)
         | (ent, None) \<Rightarrow>
             (case f (Key ent) (Value ent) s of
                (Some err, s') \<Rightarrow> (Some err, s')
              | (None, s') \<Rightarrow> Range_loop E S fs f rest s')))"

definition Range_store ::
  "'v env \<Rightarrow> Storage \<Rightarrow> fsys \<Rightarrow> (string \<Rightarrow> 'v \<Rightarrow> 's \<Rightarrow> 'e error option \<times> 's) \<Rightarrow> 's \<Rightarrow> 'e error option \<times> 's" where
  "Range_store E S fs f s =
     (case fstools_ReadDir fs (dir S) of
        Inl err \<Rightarrow>
          if is_os_ErrNotExist err then (None, s)
          else (Some (ErrInternal ''failed to range JSONs'' err), s)
      | Inr direntries \<Rightarrow> Range_loop E S fs f direntries s)"


definition counted1 :: "('v \<Rightarrow> 's \<Rightarrow> 'r \<times> 's) \<Rightarrow> 'v \<Rightarrow> 's \<times> nat \<Rightarrow> 'r \<times> 's \<times> nat" where
  "counted1 f v sn = (fst (f v (fst sn)), snd (f v (fst sn)), Suc (snd sn))"

section \<open>The second implementation (unnamed/part_000)\<close>

text \<open>
  The same store without \<open>Edit\<close>. Reading goes through the helper \<open>get\<close>, which returns
  the entry as the decoder left it together with the error; \<open>Delete\<close> keeps the error of
  \<open>os.Remove\<close> in a variable and tests it after the lock is released.
\<close>

definition get_p0 :: "'v env \<Rightarrow> Storage \<Rightarrow> fsys \<Rightarrow> path \<Rightarrow> 'v entry \<times> cause option" where
  "get_p0 E S fs path = fstools_ReadFileFunc fs path (json_Decode E) (entry0 E)"

fun Range_loop_p0 ::
  "'v env \<Rightarrow> Storage \<Rightarrow> fsys \<Rightarrow> (string \<Rightarrow> 'v \<Rightarrow> 's \<Rightarrow> 'e error option \<times> 's) \<Rightarrow> DirEntry list \<Rightarrow> 's
     \<Rightarrow> 'e error option \<times> 's" where
  "Range_loop_p0 E S fs f [] s = (None, s)"
| "Range_loop_p0 E S fs f (direntry # rest) s =
     (if IsDir direntry then Range_loop_p0 E S fs f rest s
      else if filepath_Ext (Name direntry) \<noteq> ''.json'' then Range_loop_p0 E S fs f rest s
      else
        (let r = get_p0 E S fs (filepath_Join (dir S) (Name direntry)) in
         case snd r of
           Some err \<Rightarrow>
             if is_os_ErrNotExist err then Range_loop_p0 E S fs f rest s
             else (Some (ErrInternal ''failed to range JSONs'' err), s)
         | None \<Rightarrow>
             (case f (Key (fst r)) (Value (fst r)) s of
                (Some err, s') \<Rightarrow> (Some err, s')
              | (None, s') \<Rightarrow> Range_loop_p0 E S fs f rest s')))"

definition Range_p0 ::
  "'v env \<Rightarrow> Storage \<Rightarrow> fsys \<Rightarrow> (string \<Rightarrow> 'v \<Rightarrow> 's \<Rightarrow> 'e error option \<times> 's) \<Rightarrow> 's \<Rightarrow> 'e error option \<times> 's" where
  "Range_p0 E S fs f s =
     (case fstools_ReadDir fs (dir S) of
        Inl err \<Rightarrow>
          if is_os_ErrNotExist err then (None, s)
          else (Some (ErrInternal ''failed to range JSONs'' err), s)
      | Inr direntries \<Rightarrow> Range_loop_p0 E S fs f direntries s)"

definition Get_p0 :: "'v env \<Rightarrow> Storage \<Rightarrow> fsys \<Rightarrow> string \<Rightarrow> 'e error + 'v" where
  "Get_p0 E S fs key0 =
     (let key = strings_ToLower (unicode_lower E) key0;
          path = filepath_Join (dir S) (url_PathEscape key @ ''.json'');
          r = get_p0 E S fs path
      in case snd r of
           Some err \<Rightarrow>
             if is_os_ErrNotExist err then Inl (ErrNotExist key)
             else Inl (ErrInternal ''failed to get JSON'' err)
         | None \<Rightarrow> Inr (Value (fst r)))"

definition Put_p0 :: "'v env \<Rightarrow> Storage \<Rightarrow> fsys \<Rightarrow> string \<Rightarrow> 'v \<Rightarrow> 'e error option \<times> fsys" where
  "Put_p0 E S fs key0 v =
     (let key = strings_ToLower (unicode_lower E) key0;
          path = filepath_Join (dir S) (url_PathEscape key @ ''.json'');
          w = fstools_WriteFileFunc fs path (json_Encode E \<lparr>Key = key, Value = v\<rparr>)
      in case fst w of
           Some err \<Rightarrow> (Some (ErrInternal ''failed to put JSON'' err), snd w)
         | None \<Rightarrow> (None, snd w))"

definition Delete_p0 :: "'v env \<Rightarrow> Storage \<Rightarrow> fsys \<Rightarrow> string \<Rightarrow> 'e error option \<times> fsys" where
  "Delete_p0 E S fs key0 =
     (let key = strings_ToLower (unicode_lower E) key0;
          path = filepath_Join (dir S) (url_PathEscape key @ ''.json'');
          r = (if fstools_Exists fs path then os_Remove fs path else (None, fs))
      in case fst r of
           Some err \<Rightarrow> (Some (ErrInternal ''failed to delete JSON'' err), snd r)
         | None \<Rightarrow> (None, snd r))"

section \<open>Two instances of the value type\<close>

text \<open>
  The part of the lower-case tables that the instances carry: Latin-1 and Latin
  Extended-A, the Greek, Cyrillic and Armenian capitals, the full-width Latin capitals,
  and the characters U+0130, U+2126, U+212A and U+212B. The instances leave every other
  character above ASCII as it is; among them is the final sigma U+03C2, a lower-case
  letter whose capital is U+03A3.
\<close>

definition case_table :: "nat \<Rightarrow> nat" where
  "case_table r =
     (if 0xC0 \<le> r \<and> r \<le> 0xDE \<and> r \<noteq> 0xD7 then r + 32
      else if (0x100 \<le> r \<and> r \<le> 0x12F \<or> 0x132 \<le> r \<and> r \<le> 0x137 \<or> 0x14A \<le> r \<and> r \<le> 0x177)
              \<and> even r then r + 1
      else if (0x139 \<le> r \<and> r \<le> 0x148 \<or> 0x179 \<le> r \<and> r \<le> 0x17E) \<and> odd r then r + 1
      else if r = 0x130 then 0x69
      else if r = 0x178 then 0xFF
      else if r = 0x386 then 0x3AC
      else if 0x388 \<le> r \<and> r \<le> 0x38A then r + 37
      else if r = 0x38C then 0x3CC
      else if r = 0x38E \<or> r = 0x38F then r + 63
      else if 0x391 \<le> r \<and> r \<le> 0x3AB \<and> r \<noteq> 0x3A2 then r + 32
      else if 0x400 \<le> r \<and> r \<le> 0x40F then r + 80
      else if 0x410 \<le> r \<and> r \<le> 0x42F then r + 32
      else if 0x531 \<le> r \<and> r \<le> 0x556 then r + 48
      else if r = 0x2126 then 0x3C9
      else if r = 0x212A then 0x6B
      else if r = 0x212B then 0xE5
      else if 0xFF21 \<le> r \<and> r \<le> 0xFF3A then r + 32
      else r)"

text \<open>
  \<open>T = string\<close>. Marshalling coerces the string to valid UTF-8. Decoding into a string
  variable: a JSON string sets it, \<open>null\<close> leaves it, anything else is a type error.
\<close>

fun dec_string :: "string \<Rightarrow> json \<Rightarrow> string \<times> string option" where
  "dec_string cur (JStr s) = (s, None)"
| "dec_string cur JNull = (cur, None)"
| "dec_string cur j = (cur, Some type_error_msg)"

definition string_env :: "string env" where
  "string_env =
     \<lparr>unicode_lower = case_table, zeroT = [], encT = (\<lambda>s. Inr (JStr (coerce_utf8 0 s))),
      decT = dec_string\<rparr>"

text \<open>
  \<open>T = int\<close> (64 bits, two's complement): the number is written in decimal, and a JSON
  number in range sets the variable.
\<close>

fun dec_int :: "64 word \<Rightarrow> json \<Rightarrow> 64 word \<times> string option" where
  "dec_int cur (JNum n) =
     (if - (2 ^ 63) \<le> n \<and> n < 2 ^ 63 then (word_of_int n, None) else (cur, Some type_error_msg))"
| "dec_int cur JNull = (cur, None)"
| "dec_int cur j = (cur, Some type_error_msg)"

definition int_env :: "64 word env" where
  "int_env =
     \<lparr>unicode_lower = case_table, zeroT = 0, encT = (\<lambda>n. Inr (JNum (sint n))), decT = dec_int\<rparr>"

definition no_files :: fsys where
  "no_files = (\<lambda>d. NoDir)"

section \<open>Notions used in the statements\<close>

text \<open>
  No file exists at a path: the directory is missing, or it has no entry of that name, or
  the entry is a link to nothing.
\<close>

definition nothing_at :: "(string \<times> node) list \<Rightarrow> string \<Rightarrow> bool" where
  "nothing_at ch name = (case map_of ch name of None \<Rightarrow> True | Some Dangling \<Rightarrow> True | Some n \<Rightarrow> False)"

definition no_file_at :: "fsys \<Rightarrow> path \<Rightarrow> bool" where
  "no_file_at fs p =
     (case fs (fst p) of
        NoDir \<Rightarrow> True
      | BadDir m ch \<Rightarrow> nothing_at ch (snd p)
      | Dir ch \<Rightarrow> nothing_at ch (snd p))"

text \<open>
  The system reports that the path does not exist: the path text and the name are
  within the limits, and the directory is missing or, being usable, has nothing at the
  name.
\<close>

definition enoent :: "fsys \<Rightarrow> path \<Rightarrow> bool" where
  "enoent fs p =
     (length (path_text p) < PATH_MAX \<and>
      (case fs (fst p) of
         NoDir \<Rightarrow> True
       | BadDir m ch \<Rightarrow> False
       | Dir ch \<Rightarrow> length (snd p) \<le> NAME_MAX \<and> nothing_at ch (snd p)))"

definition names :: "fsys \<Rightarrow> string \<Rightarrow> string list" where
  "names fs d = (case fs d of NoDir \<Rightarrow> [] | BadDir m ch \<Rightarrow> map fst ch | Dir ch \<Rightarrow> map fst ch)"


text \<open>
  Two characters differ only in letter case when they are equal or one of them is a
  lower-case character and the lower-case form of the other. Two keys differ only in
  letter case when they are so character by character, the characters of a key being
  those that \<open>range\<close> yields.
\<close>

definition case_variant :: "(nat \<Rightarrow> nat) \<Rightarrow> nat \<Rightarrow> nat \<Rightarrow> bool" where
  "case_variant L a b = (a = b \<or> (L a = b \<and> L b = b) \<or> (L b = a \<and> L a = a))"

definition differ_only_in_case :: "(nat \<Rightarrow> nat) \<Rightarrow> string \<Rightarrow> string \<Rightarrow> bool" where
  "differ_only_in_case tbl k1 k2 =
     list_all2 (case_variant (unicode_ToLower tbl)) (runes_from 0 k1) (runes_from 0 k2)"





section \<open>Example states\<close>

definition envelope :: "string \<Rightarrow> json \<Rightarrow> node" where
  "envelope k j = File (Doc (JObj [(''key'', JStr k), (''value'', j)]))"

definition data :: Storage where
  "data = New ''data''"

definition fs_hello :: fsys where
  "fs_hello = no_files(''data'' := Dir [(''foo.json'', envelope ''foo'' (JStr ''hello''))])"

definition fs_five :: fsys where
  "fs_five = no_files(''data'' := Dir [(''n.json'', envelope ''n'' (JNum 5))])"

definition fs_six :: fsys where
  "fs_six = no_files(''data'' := Dir [(''n.json'', envelope ''n'' (JNum 6))])"

text \<open>A string value that is not valid UTF-8, stored under two keys.\<close>

definition fs_bad_byte :: fsys where
  "fs_bad_byte = no_files(''data'' := Dir [(''k.json'', envelope ''k'' (JStr replacement))])"

definition fs_bad_lead :: fsys where
  "fs_bad_lead =
     no_files(''data'' := Dir [(''foo.json'', envelope ''foo'' (JStr (CHR ''a'' # replacement)))])"

text \<open>A key of 251 bytes: its file name has 256.\<close>

definition long_key :: string where
  "long_key = replicate 251 (CHR ''a'')"

definition fs_other_key :: fsys where
  "fs_other_key = no_files(''data'' := Dir [(''a.json'', envelope ''zzz'' (JStr ''v''))])"



text \<open>The store after \<open>Put\<close> under the key U+03A3, a capital sigma.\<close>

definition fs_sigma :: fsys where
  "fs_sigma =
     no_files(''data'' := Dir [(''%CF%83.json'', envelope [CHR 0xCF, CHR 0x83] (JStr ''v''))])"



text \<open>A transform that fails with an error of the caller, and one that adds one.\<close>

definition refuse :: "64 word \<Rightarrow> nat \<Rightarrow> (string error + 64 word) \<times> nat" where
  "refuse v s = (Inl (Custom ''refused''), Suc s)"

definition add_one :: "64 word \<Rightarrow> nat \<Rightarrow> (string error + 64 word) \<times> nat" where
  "add_one v s = (Inr (v + 1), Suc s)"


section \<open>Basic facts\<close>

lemmas string_eval =
  strings_ToLower_def isASCII_def lower_byte_def upper_byte_def is_upper_def is_lower_def
  is_digit_def shouldEscape_def upperhex_def filepath_Ext_def filepath_Join_def key_path_def
  path_text_def filepath_Clean_def

lemmas fs_eval =
  fstools_ReadDir_def os_walk_def os_Open_def fstools_ReadFileFunc_def fstools_WriteFileFunc_def
  fstools_Exists_def os_Remove_def no_file_at_def nothing_at_def enoent_def names_def no_files_def
  NAME_MAX_def PATH_MAX_def ENAMETOOLONG_def

lemmas json_eval =
  decode_member_def json_Encode_def entry0_def type_error_def envelope_def
  string_env_def int_env_def accept_def byte_in_def replacement_def

lemmas store_eval = New_def data_def Get_def Put_def Edit_def Delete_def Range_store_def

lemma is_os_ErrNotExist_iff: "is_os_ErrNotExist c \<longleftrightarrow> c = OsErrNotExist"
  by (cases c) simp_all

lemma foldName_key: "foldName ''key'' = ''KEY''"
  by (simp add: upper_byte_def is_lower_def)

lemma foldName_value: "foldName ''value'' = ''VALUE''"
  by (simp add: upper_byte_def is_lower_def)

lemma Get_key_path:
  "Get E S fs k =
     (case fstools_ReadFileFunc fs (key_path E S k) (json_Decode E) (entry0 E) of
        (ent, Some err) \<Rightarrow>
          if is_os_ErrNotExist err then Inl (ErrNotExist (strings_ToLower (unicode_lower E) k))
          else Inl (ErrInternal ''failed to get JSON'' err)
      | (ent, None) \<Rightarrow> Inr (Value ent))"
  by (simp add: Get_def key_path_def Let_def)

lemma Put_key_path:
  "Put E S fs k v =
     (case fstools_WriteFileFunc fs (key_path E S k)
             (json_Encode E \<lparr>Key = strings_ToLower (unicode_lower E) k, Value = v\<rparr>) of
        (Some err, fs') \<Rightarrow> (Some (ErrInternal ''failed to put JSON'' err), fs')
      | (None, fs') \<Rightarrow> (None, fs'))"
  by (simp add: Put_def key_path_def Let_def)

lemma write_shape:
  assumes "fstools_WriteFileFunc fs p w = (None, fs')"
  shows "\<exists>c ch. w = Inr c \<and> length (path_text p) < PATH_MAX \<and> length (snd p) \<le> NAME_MAX \<and>
           fs' = fs(fst p := Dir ch) \<and> map_of ch (snd p) = Some (File c) \<and>
           (fs (fst p) = NoDir \<and> ch = [(snd p, File c)] \<or>
            (\<exists>ch0. fs (fst p) = Dir ch0 \<and> ch = AList.update (snd p) (File c) ch0))"
proof (cases "fs (fst p)")
  case NoDir
  with assms show ?thesis
    by (auto simp: fstools_WriteFileFunc_def split: if_splits sum.splits)
next
  case (BadDir m ch)
  with assms show ?thesis
    by (simp add: fstools_WriteFileFunc_def split: if_splits)
next
  case (Dir ch0)
  with assms show ?thesis
    by (auto simp: fstools_WriteFileFunc_def update_conv'
             split: if_splits sum.splits option.splits node.splits)
qed

lemma write_then_open:
  assumes "fstools_WriteFileFunc fs p w = (None, fs')"
  shows "\<exists>c. w = Inr c \<and> os_Open fs' p = Inr c"
proof -
  from write_shape [OF assms] obtain c ch where
    "w = Inr c" "length (path_text p) < PATH_MAX" "length (snd p) \<le> NAME_MAX"
    "fs' = fs(fst p := Dir ch)" "map_of ch (snd p) = Some (File c)"
    by blast
  then show ?thesis
    by (simp add: os_Open_def os_walk_def)
qed

lemma decode_envelope:
  "json_Decode E (Doc (JObj [(''key'', JStr k), (''value'', j)])) ent =
     (\<lparr>Key = k, Value = fst (decT E (Value ent) j)\<rparr>,
      map_option JsonError (snd (decT E (Value ent) j)))"
  by (cases ent) (simp add: decode_member_def foldName_key foldName_value del: foldName.simps)

lemma Put_success_open:
  assumes "Put E S fs k v = (None, fs')"
  shows "\<exists>j. encT E v = Inr j \<and>
           os_Open fs' (key_path E S k) =
             Inr (Doc (JObj [(''key'', JStr (coerce_utf8 0 (strings_ToLower (unicode_lower E) k))), (''value'', j)]))"
proof -
  let ?w = "json_Encode E \<lparr>Key = strings_ToLower (unicode_lower E) k, Value = v\<rparr>"
  have "fstools_WriteFileFunc fs (key_path E S k) ?w = (None, fs')"
    using assms by (auto simp: Put_key_path split: prod.splits option.splits)
  from write_then_open [OF this] obtain c
    where c: "?w = Inr c" "os_Open fs' (key_path E S k) = Inr c"
    by auto
  from c(1) obtain j where "encT E v = Inr j"
    and "c = Doc (JObj [(''key'', JStr (coerce_utf8 0 (strings_ToLower (unicode_lower E) k))), (''value'', j)])"
    by (auto simp: json_Encode_def split: sum.splits)
  with c(2) show ?thesis by simp
qed

lemma Get_of_envelope:
  assumes "os_Open fs (key_path E S k) = Inr (Doc (JObj [(''key'', JStr k'), (''value'', j)]))"
    and "decT E (zeroT E) j = (v, None)"
  shows "Get E S fs k = Inr v"
  using assms
  by (simp add: Get_key_path fstools_ReadFileFunc_def decode_envelope entry0_def
           del: json_Decode.simps)

section \<open>Round trip\<close>

text \<open>
  Claim C1, as stated, fails: the store returns what the JSON codec of \<open>T\<close> reads back,
  and the codec does not read every value back as it was. At \<open>T = string\<close>, \<open>Put\<close> of the
  one-byte string \<open>FF\<close> succeeds and writes U+FFFD; \<open>Get\<close> then returns the three bytes
  \<open>EF BF BD\<close>.
\<close>

theorem Put_then_Get_lossy:
  "Put string_env data no_files ''k'' [CHR 0xFF] = (None :: unit error option, fs_bad_byte) \<and>
   Get string_env data fs_bad_byte ''k'' = (Inr [CHR 0xEF, CHR 0xBF, CHR 0xBD] :: unit error + string) \<and>
   Get string_env data fs_bad_byte ''k'' \<noteq> (Inr [CHR 0xFF] :: unit error + string)"
  by (simp add: string_eval fs_eval json_eval store_eval fs_bad_byte_def)

text \<open>
  Claim C1, amended. After \<open>Put(k, v)\<close> has succeeded, \<open>Get(k)\<close> on the resulting file
  system succeeds and returns \<open>v\<close>, for every key, every starting file system and
  every value that the codec of \<open>T\<close> reads back: decoding the JSON that marshalling \<open>v\<close>
  produced, into a fresh variable, gives \<open>v\<close>.
\<close>

theorem Put_then_Get:
  assumes "Put E S fs k v = (None, fs')"
    and "encT E v = Inr j"
    and "decT E (zeroT E) j = (v, None)"
  shows "Get E S fs' k = Inr v"
proof -
  from Put_success_open [OF assms(1)] obtain j' where j': "encT E v = Inr j'"
    "os_Open fs' (key_path E S k) =
       Inr (Doc (JObj [(''key'', JStr (coerce_utf8 0 (strings_ToLower (unicode_lower E) k))), (''value'', j')]))"
    by auto
  from j'(1) assms(2) have "j' = j" by simp
  with j'(2) assms(3) show ?thesis
    by (simp add: Get_of_envelope)
qed

theorem Put_then_Get_witness:
  "Put string_env data no_files ''Foo'' ''hello'' = (None :: unit error option, fs_hello) \<and>
   encT string_env ''hello'' = Inr (JStr ''hello'') \<and>
   decT string_env (zeroT string_env) (JStr ''hello'') = (''hello'', None) \<and>
   Get string_env data fs_hello ''Foo'' = (Inr ''hello'' :: unit error + string)"
proof -
  have h1: "Put string_env data no_files ''Foo'' ''hello'' = (None :: unit error option, fs_hello)"
    by (simp add: string_eval fs_eval json_eval store_eval fs_hello_def)
  have h2: "encT string_env ''hello'' = Inr (JStr ''hello'')"
    by (simp add: string_env_def)
  have h3: "decT string_env (zeroT string_env) (JStr ''hello'') = (''hello'', None)"
    by (simp add: string_env_def)
  from Put_then_Get [OF h1 h2 h3] h1 h2 h3 show ?thesis
    by simp
qed

lemma int_env_reads_back: "encT int_env w = Inr j \<Longrightarrow> decT int_env c j = (w, None)"
  using sint_ge [of w] sint_lt [of w]
  by (auto simp: int_env_def)

section \<open>Paths that do not exist\<close>

lemma enoent_open: "enoent fs p \<longleftrightarrow> os_Open fs p = Inl OsErrNotExist"
  by (auto simp: enoent_def nothing_at_def os_Open_def os_walk_def ENAMETOOLONG_def
           split: dirstate.splits option.splits node.splits)


lemma no_file_open: "no_file_at fs p \<Longrightarrow> \<exists>c. os_Open fs p = Inl c"
  by (auto simp: no_file_at_def nothing_at_def os_Open_def os_walk_def
           split: dirstate.splits option.splits node.splits)


lemma ToLower_replicate_a: "strings_ToLower tbl (replicate n (CHR ''a'')) = replicate n (CHR ''a'')"
  by (simp add: strings_ToLower_def isASCII_def list_all_iff lower_byte_def is_upper_def)

lemma PathEscape_replicate_a: "url_PathEscape (replicate n (CHR ''a'')) = replicate n (CHR ''a'')"
  by (induction n) (simp_all add: shouldEscape_def is_lower_def)

lemma key_path_long_key:
  "key_path E S long_key = (dir S, replicate 251 (CHR ''a'') @ ''.json'')"
  by (simp add: key_path_def long_key_def ToLower_replicate_a PathEscape_replicate_a
        filepath_Join_def)

lemma long_name_open:
  assumes "fs d = Dir ch" and "NAME_MAX < length name"
  shows "os_Open fs (d, name) = Inl ENAMETOOLONG"
  using assms by (simp add: os_Open_def os_walk_def)

lemma long_key_open:
  assumes "fs (dir S) = Dir ch"
  shows "os_Open fs (key_path E S long_key) = Inl ENAMETOOLONG"
  unfolding key_path_long_key
  using assms by (intro long_name_open [where fs = fs and d = "dir S" and ch = ch])
    (simp_all add: NAME_MAX_def)

lemma long_key_no_file:
  assumes "fs (dir S) = Dir [(name, nd)]" and "length name < 256"
  shows "no_file_at fs (key_path E S long_key)"
proof -
  have "length (replicate 251 (CHR ''a'') @ ''.json'') \<noteq> length name"
    using assms(2) by simp
  then have "replicate 251 (CHR ''a'') @ ''.json'' \<noteq> name"
    by blast
  with assms(1) show ?thesis
    by (simp add: key_path_long_key no_file_at_def nothing_at_def)
qed

section \<open>Edit\<close>

lemma Edit_key_path:
  "Edit E S fs k f s =
     (case fstools_ReadFileFunc fs (key_path E S k) (json_Decode E) (entry0 E) of
        (ent, Some err) \<Rightarrow>
          if is_os_ErrNotExist err
          then (Inl (ErrNotExist (strings_ToLower (unicode_lower E) k)), fs, s)
          else (Inl (ErrInternal ''failed to edit JSON'' err), fs, s)
      | (ent, None) \<Rightarrow>
          (case f (Value ent) s of
             (Inl err, s') \<Rightarrow> (Inl err, fs, s')
           | (Inr v, s') \<Rightarrow>
               (case fstools_WriteFileFunc fs (key_path E S k)
                       (json_Encode E \<lparr>Key = strings_ToLower (unicode_lower E) k, Value = v\<rparr>) of
                  (Some err, fs') \<Rightarrow> (Inl (ErrInternal ''failed to edit JSON'' err), fs', s')
                | (None, fs') \<Rightarrow> (Inr v, fs', s'))))"
  unfolding Edit_def key_path_def Let_def by (rule refl)

text \<open>
  Claim C2. When the entry of \<open>k\<close> is there and decodes, and the transform applied to its
  value returns an error \<open>e\<close>, \<open>Edit(k, f)\<close> returns that very \<open>e\<close>, whatever error it is,
  and leaves the file system as it was: \<open>Get(k)\<close> still returns the old value. The
  caller's state is what the transform left.
\<close>

theorem Edit_transform_error:
  assumes "fstools_ReadFileFunc fs (key_path E S k) (json_Decode E) (entry0 E) = (ent, None)"
    and "f (Value ent) s = (Inl e, s')"
  shows "Edit E S fs k f s = (Inl e, fs, s') \<and>
         Get E S (fst (snd (Edit E S fs k f s))) k = Inr (Value ent)"
  using assms by (simp add: Edit_key_path Get_key_path)

theorem Edit_transform_error_witness:
  "fstools_ReadFileFunc fs_five (key_path int_env data ''N'') (json_Decode int_env) (entry0 int_env)
     = (\<lparr>Key = ''n'', Value = 5\<rparr>, None) \<and>
   refuse 5 0 = (Inl (Custom ''refused''), 1) \<and>
   Edit int_env data fs_five ''N'' refuse 0 = (Inl (Custom ''refused''), fs_five, 1) \<and>
   Get int_env data (fst (snd (Edit int_env data fs_five ''N'' refuse 0))) ''N''
     = (Inr 5 :: unit error + 64 word)"
proof -
  have h1: "fstools_ReadFileFunc fs_five (key_path int_env data ''N'') (json_Decode int_env)
              (entry0 int_env) = (\<lparr>Key = ''n'', Value = 5\<rparr>, None)"
    by (simp add: string_eval fs_eval json_eval store_eval fs_five_def)
  have h2: "refuse (Value \<lparr>Key = ''n'', Value = 5\<rparr>) 0 = (Inl (Custom ''refused''), 1)"
    by (simp add: refuse_def)
  from Edit_transform_error [where f = refuse and ent = "\<lparr>Key = ''n'', Value = 5\<rparr>", OF h1 h2] h1 h2
  show ?thesis
    by simp
qed

lemma Edit_add_one_example:
  "Edit int_env data fs_five ''n'' add_one 0 = (Inr 6, fs_six, 1)"
  by (simp add: string_eval fs_eval json_eval store_eval fs_five_def fs_six_def add_one_def Let_def)

lemma Edit_open_fails:
  assumes "os_Open fs (key_path E S k) = Inl c"
  shows "Edit E S fs k g s =
           (Inl (if c = OsErrNotExist then ErrNotExist (strings_ToLower (unicode_lower E) k)
                 else ErrInternal ''failed to edit JSON'' c), fs, s)"
  using assms by (simp add: Edit_key_path fstools_ReadFileFunc_def is_os_ErrNotExist_iff)

text \<open>
  Claim C5, as stated, fails: where no file exists and the open fails with another error
  than not-exist, \<open>Edit\<close> fails with Internal. In a directory that holds only \<open>n.json\<close>,
  no file exists at the path of a key of 251 bytes, whose name of 256 bytes the system
  refuses; \<open>Edit\<close> of that key returns Internal, without invoking the transform.
\<close>

theorem Edit_long_key_Internal:
  "no_file_at fs_five (key_path int_env data long_key) \<and>
   Edit int_env data fs_five long_key (counted1 add_one) (0, 0)
     = (Inl (ErrInternal ''failed to edit JSON'' ENAMETOOLONG), fs_five, (0, 0))"
proof -
  have d: "fs_five (dir data) = Dir [(''n.json'', envelope ''n'' (JNum 5))]"
    by (simp add: fs_five_def data_def New_def)
  have o: "os_Open fs_five (key_path int_env data long_key) = Inl ENAMETOOLONG"
    using d by (rule long_key_open [where fs = fs_five and S = data])
  have n: "no_file_at fs_five (key_path int_env data long_key)"
    using d by (rule long_key_no_file [where fs = fs_five and S = data]) simp
  from n Edit_open_fails [OF o] show ?thesis
    by (simp add: ENAMETOOLONG_def)
qed

text \<open>
  Claim C5, amended. When no file exists at the path of \<open>k\<close>, \<open>Edit(k, f)\<close> fails for every
  transform, with the file system and the caller's state unchanged, and the transform is
  not invoked: a transform that counts its invocations leaves its counter where it was.
  The error is NotExist on the lower-cased key exactly when the system reports the path
  as not existing (the path text is within the limit, and the directory is missing or,
  being usable, is asked for a name within the limit); otherwise (a name or path too
  long, a directory path that cannot be used) it is Internal with the cause of the failed
  open.
\<close>

theorem Edit_missing:
  assumes "no_file_at fs (key_path E S k)"
  shows "\<exists>c. os_Open fs (key_path E S k) = Inl c \<and>
           (c = OsErrNotExist) = enoent fs (key_path E S k) \<and>
           Edit E S fs k g s0 =
             (Inl (if enoent fs (key_path E S k)
                   then ErrNotExist (strings_ToLower (unicode_lower E) k)
                   else ErrInternal ''failed to edit JSON'' c), fs, s0) \<and>
           Edit E S fs k (counted1 f) (s, n) =
             (Inl (if enoent fs (key_path E S k)
                   then ErrNotExist (strings_ToLower (unicode_lower E) k)
                   else ErrInternal ''failed to edit JSON'' c), fs, (s, n))"
proof -
  from no_file_open [OF assms] obtain c where c: "os_Open fs (key_path E S k) = Inl c"
    by blast
  then have e: "(c = OsErrNotExist) = enoent fs (key_path E S k)"
    by (simp add: enoent_open)
  from c e Edit_open_fails [OF c, of g s0] Edit_open_fails [OF c, of "counted1 f" "(s, n)"]
  show ?thesis
    by (intro exI [of _ c]) simp
qed

theorem Edit_missing_witness:
  "no_file_at no_files (key_path int_env data ''missing'') \<and>
   enoent no_files (key_path int_env data ''missing'') \<and>
   Edit int_env data no_files ''missing'' (counted1 add_one) (0, 0) =
     (Inl (ErrNotExist ''missing''), no_files, (0, 0))"
proof -
  have h: "no_file_at no_files (key_path int_env data ''missing'')"
    by (simp add: fs_eval)
  have e: "enoent no_files (key_path int_env data ''missing'')"
    by (simp add: string_eval fs_eval int_env_def data_def New_def)
  from Edit_missing [OF h, where f = add_one and s = 0 and n = 0 and g = add_one and ?s0.0 = 0] h e
  show ?thesis
    by (auto simp: string_eval int_env_def)
qed

section \<open>Range on a missing directory\<close>



section \<open>Get\<close>












text \<open>
  Claim C10. \<open>Get(k)\<close> returns the value of whatever entry decodes from the file at the
  path of \<open>k\<close> and never compares the entry's key with \<open>k\<close>: a file there whose envelope
  carries any key \<open>k'\<close> decodes to an entry with that key, and \<open>Get(k)\<close> succeeds with
  the value of that file.
\<close>

theorem Get_ignores_stored_key:
  assumes "os_Open fs (key_path E S k) = Inr (Doc (JObj [(''key'', JStr k'), (''value'', j)]))"
    and "decT E (zeroT E) j = (v, None)"
  shows "fstools_ReadFileFunc fs (key_path E S k) (json_Decode E) (entry0 E)
           = (\<lparr>Key = k', Value = v\<rparr>, None)
         \<and> Get E S fs k = Inr v"
  using assms
  by (simp add: Get_key_path fstools_ReadFileFunc_def decode_envelope entry0_def
           del: json_Decode.simps)

theorem Get_ignores_stored_key_witness:
  "os_Open fs_other_key (key_path string_env data ''a'')
     = Inr (Doc (JObj [(''key'', JStr ''zzz''), (''value'', JStr ''v'')])) \<and>
   decT string_env (zeroT string_env) (JStr ''v'') = (''v'', None) \<and>
   strings_ToLower (unicode_lower string_env) ''a'' \<noteq> ''zzz'' \<and>
   fstools_ReadFileFunc fs_other_key (key_path string_env data ''a'') (json_Decode string_env)
       (entry0 string_env) = (\<lparr>Key = ''zzz'', Value = ''v''\<rparr>, None) \<and>
   Get string_env data fs_other_key ''a'' = (Inr ''v'' :: unit error + string)"
proof -
  have h1: "os_Open fs_other_key (key_path string_env data ''a'')
              = Inr (Doc (JObj [(''key'', JStr ''zzz''), (''value'', JStr ''v'')]))"
    by (simp add: string_eval fs_eval json_eval store_eval fs_other_key_def)
  have h2: "decT string_env (zeroT string_env) (JStr ''v'') = (''v'', None)"
    by (simp add: string_env_def)
  have h3: "strings_ToLower (unicode_lower string_env) ''a'' \<noteq> ''zzz''"
    by (simp add: string_eval)
  from Get_ignores_stored_key [OF h1 h2] h1 h2 h3 show ?thesis
    by simp
qed

section \<open>The two implementations\<close>

lemma Range_loop_p0_eq: "Range_loop_p0 E S fs f ds s = Range_loop E S fs f ds s"
proof (induction ds arbitrary: s)
  case Nil
  show ?case by simp
next
  case (Cons d ds)
  show ?case
    by (cases "get_p0 E S fs (filepath_Join (dir S) (Name d))")
       (auto simp: Cons.IH get_p0_def Let_def split: option.splits prod.splits)
qed

lemma Get_p0_eq: "Get_p0 E S fs k = Get E S fs k"
  unfolding Get_p0_def Get_def get_p0_def Let_def
  by (auto split: prod.splits option.splits)

lemma Put_p0_eq: "Put_p0 E S fs k v = Put E S fs k v"
  unfolding Put_p0_def Put_def Let_def
  by (auto split: prod.splits option.splits)

lemma Delete_p0_eq: "Delete_p0 E S fs k = Delete E S fs k"
  unfolding Delete_p0_def Delete_def Let_def
  by (auto split: prod.splits option.splits)

text \<open>
  Claim C9. On the operations they share, the store of storage.go and the store of
  unnamed/part_000 agree: for every directory, file system, key, value and visitor,
  \<open>Range\<close>, \<open>Get\<close>, \<open>Put\<close> and \<open>Delete\<close> return the same result and leave the same file
  system (and the same caller's state).
\<close>

theorem implementations_agree:
  "Range_p0 E S fs f s = Range_store E S fs f s \<and>
   Get_p0 E S fs k = Get E S fs k \<and>
   Put_p0 E S fs k v = Put E S fs k v \<and>
   Delete_p0 E S fs k = Delete E S fs k"
  by (simp add: Range_p0_def Range_store_def Range_loop_p0_eq Get_p0_eq Put_p0_eq Delete_p0_eq
           cong: sum.case_cong)

section \<open>Letter case\<close>

lemma byte_of_of_char: "byte_of (of_char c) = c"
  by (cases c) (simp add: byte_of_def)

lemma with_bit5_upper:
  "is_upper a \<Longrightarrow> (of_char (with_bit5 True a) :: nat) = of_char a + 32"
  by (cases a) (auto simp: of_bool_def is_upper_def split: if_splits)

lemma of_char_lower_byte:
  "(of_char c :: nat) < 128 \<Longrightarrow> (of_char (lower_byte c) :: nat) = unicode_ToLower tbl (of_char c)"
  using with_bit5_upper [of c]
  by (auto simp: lower_byte_def unicode_ToLower_def is_upper_def)

lemma lower_ascii: "(of_char c :: nat) < 128 \<Longrightarrow> (of_char (lower_byte c) :: nat) < 128"
  using with_bit5_upper [of c]
  by (auto simp: lower_byte_def is_upper_def)

lemma Map_ascii: "isASCII s \<Longrightarrow> strings_Map (unicode_ToLower tbl) s = map lower_byte s"
proof (induction s)
  case Nil
  show ?case by (simp add: strings_Map_def)
next
  case (Cons c s)
  then have c: "(of_char c :: nat) < 128" and s: "isASCII s"
    by (simp_all add: isASCII_def)
  have "unicode_ToLower tbl (of_char c) = of_char (lower_byte c)"
    using of_char_lower_byte [OF c, of tbl] by simp
  then have "encode_rune (unicode_ToLower tbl (of_char c)) = [lower_byte c]"
    using lower_ascii [OF c] by (simp add: encode_rune_def byte_of_of_char)
  with Cons.IH [OF s] c show ?case
    by (simp add: strings_Map_def)
qed

text \<open>The fast path of \<open>strings.ToLower\<close> computes what the general path computes.\<close>

lemma ToLower_Map: "strings_ToLower tbl s = strings_Map (unicode_ToLower tbl) s"
  by (simp add: strings_ToLower_def Map_ascii)

lemma variant_map: "list_all2 (case_variant L) xs ys \<Longrightarrow> map L xs = map L ys"
  by (induction rule: list_all2_induct) (auto simp: case_variant_def)

lemma Map_alt: "strings_Map f s = concat (map encode_rune (map f (runes_from 0 s)))"
  by (simp add: strings_Map_def comp_def)

lemma differ_ToLower:
  "differ_only_in_case tbl k1 k2 \<Longrightarrow> strings_ToLower tbl k1 = strings_ToLower tbl k2"
  unfolding differ_only_in_case_def ToLower_Map Map_alt
  by (drule variant_map) simp

lemma ToLower_Foo:
  "strings_ToLower U ''Foo'' = ''foo''" "strings_ToLower U ''foo'' = ''foo''"
  "strings_ToLower U ''FOO'' = ''foo''"
  by (simp_all add: strings_ToLower_def isASCII_def lower_byte_def is_upper_def)

lemma key_path_Foo:
  "key_path E S ''Foo'' = filepath_Join (dir S) ''foo.json''"
  "key_path E S ''foo'' = filepath_Join (dir S) ''foo.json''"
  "key_path E S ''FOO'' = filepath_Join (dir S) ''foo.json''"
  by (simp_all add: key_path_def ToLower_Foo shouldEscape_def is_lower_def)

lemma count_list_distinct: "distinct xs \<Longrightarrow> x \<in> set xs \<Longrightarrow> count_list xs x = 1"
  by (induction xs) auto

lemma write_names:
  assumes "fstools_WriteFileFunc fs p w = (None, fs')"
  shows "set (names fs' (fst p)) = insert (snd p) (set (names fs (fst p)))"
    and "distinct (names fs (fst p)) \<Longrightarrow> distinct (names fs' (fst p))"
proof -
  have "set (names fs' (fst p)) = insert (snd p) (set (names fs (fst p))) \<and>
        (distinct (names fs (fst p)) \<longrightarrow> distinct (names fs' (fst p)))"
  proof (cases "fs (fst p)")
    case NoDir
    with assms show ?thesis
      by (auto simp: fstools_WriteFileFunc_def names_def split: sum.splits if_splits)
  next
    case (BadDir m ch)
    with assms show ?thesis
      by (simp add: fstools_WriteFileFunc_def split: if_splits)
  next
    case (Dir ch)
    with assms obtain c where "fs' = fs(fst p := Dir (AList.update (snd p) (File c) ch))"
      by (auto simp: fstools_WriteFileFunc_def split: sum.splits option.splits node.splits if_splits)
    with Dir show ?thesis
      by (simp add: names_def dom_update distinct_update)
  qed
  then show "set (names fs' (fst p)) = insert (snd p) (set (names fs (fst p)))"
    and "distinct (names fs (fst p)) \<Longrightarrow> distinct (names fs' (fst p))"
    by simp_all
qed

text \<open>
  Letter case beyond ASCII, at the instances: \<open>F\<close>, U+00C9 and \<open>f\<close>, U+00E9 go to one
  lower-cased key, and so do the Kelvin sign U+212A and the letter \<open>k\<close>, the first through
  \<open>strings.Map\<close> and the second through the fast path.
\<close>

lemma ToLower_beyond_ASCII:
  "strings_ToLower case_table [CHR ''F'', CHR 0xC3, CHR 0x89] = [CHR ''f'', CHR 0xC3, CHR 0xA9]"
  "strings_ToLower case_table [CHR ''f'', CHR 0xC3, CHR 0xA9] = [CHR ''f'', CHR 0xC3, CHR 0xA9]"
  "strings_ToLower case_table [CHR 0xE2, CHR 0x84, CHR 0xAA] = ''k''"
  "strings_ToLower case_table ''k'' = ''k''"
  by (simp_all add: strings_ToLower_def isASCII_def strings_Map_def accept_def byte_in_def
        lead_value_def unicode_ToLower_def case_table_def encode_rune_def byte_of_def
        lower_byte_def is_upper_def)

text \<open>
  Claim C3, as stated, fails twice. For values, for the same reason as the round trip:
  \<open>Get\<close> under another spelling of the key finds the file, and returns what the codec
  reads back. At \<open>T = string\<close>, after \<open>Put("Foo", v)\<close> with \<open>v\<close> the two bytes \<open>61 C3\<close>
  (a letter and a leading byte with nothing after it), \<open>Get("foo")\<close> returns
  \<open>61 EF BF BD\<close>. For keys, because the store lower-cases and does nothing else: the
  capital sigma U+03A3 (bytes \<open>CE A3\<close>) and the final sigma U+03C2 (bytes \<open>CF 82\<close>) differ
  only in letter case, the second being a lower-case letter whose capital is the first,
  but the lower-case form of the first is U+03C3 (bytes \<open>CF 83\<close>). After \<open>Put\<close> under the
  capital, \<open>Get\<close> under the final sigma looks for another file and fails with NotExist.
\<close>

theorem Put_Foo_lossy:
  "Put string_env data no_files ''Foo'' [CHR ''a'', CHR 0xC3] = (None :: unit error option, fs_bad_lead) \<and>
   Get string_env data fs_bad_lead ''foo''
     = (Inr [CHR ''a'', CHR 0xEF, CHR 0xBF, CHR 0xBD] :: unit error + string) \<and>
   Get string_env data fs_bad_lead ''foo'' \<noteq> (Inr [CHR ''a'', CHR 0xC3] :: unit error + string) \<and>
   Put string_env data no_files [CHR 0xCE, CHR 0xA3] ''v'' = (None :: unit error option, fs_sigma) \<and>
   key_path string_env data [CHR 0xCE, CHR 0xA3] = filepath_Join ''data'' ''%CF%83.json'' \<and>
   key_path string_env data [CHR 0xCF, CHR 0x82] = filepath_Join ''data'' ''%CF%82.json'' \<and>
   Get string_env data fs_sigma [CHR 0xCF, CHR 0x82]
     = (Inl (ErrNotExist [CHR 0xCF, CHR 0x82]) :: unit error + string)"
proof -
  have v: "Put string_env data no_files ''Foo'' [CHR ''a'', CHR 0xC3] = (None :: unit error option, fs_bad_lead) \<and>
   Get string_env data fs_bad_lead ''foo''
     = (Inr [CHR ''a'', CHR 0xEF, CHR 0xBF, CHR 0xBD] :: unit error + string) \<and>
   Get string_env data fs_bad_lead ''foo'' \<noteq> (Inr [CHR ''a'', CHR 0xC3] :: unit error + string)"
    by (simp add: string_eval fs_eval json_eval store_eval fs_bad_lead_def)
  have l: "strings_ToLower (unicode_lower string_env) [CHR 0xCE, CHR 0xA3] = [CHR 0xCF, CHR 0x83]"
    "strings_ToLower (unicode_lower string_env) [CHR 0xCF, CHR 0x82] = [CHR 0xCF, CHR 0x82]"
    by (simp_all add: string_env_def strings_ToLower_def isASCII_def strings_Map_def accept_def
          byte_in_def lead_value_def unicode_ToLower_def case_table_def encode_rune_def byte_of_def)
  have e: "url_PathEscape [CHR 0xCF, CHR 0x83] = ''%CF%83''"
    "url_PathEscape [CHR 0xCF, CHR 0x82] = ''%CF%82''"
    by (simp_all add: shouldEscape_def is_lower_def is_upper_def is_digit_def upperhex_def)
  have k1: "key_path string_env data [CHR 0xCE, CHR 0xA3] = filepath_Join ''data'' ''%CF%83.json''"
    unfolding key_path_def l e by (simp add: data_def New_def)
  have k2: "key_path string_env data [CHR 0xCF, CHR 0x82] = filepath_Join ''data'' ''%CF%82.json''"
    unfolding key_path_def l e by (simp add: data_def New_def)
  have p: "Put string_env data no_files [CHR 0xCE, CHR 0xA3] ''v'' = (None :: unit error option, fs_sigma)"
    unfolding Put_key_path k1 l
    by (simp add: string_eval fs_eval json_eval fs_sigma_def)
  have g: "Get string_env data fs_sigma [CHR 0xCF, CHR 0x82]
     = (Inl (ErrNotExist [CHR 0xCF, CHR 0x82]) :: unit error + string)"
    unfolding Get_key_path k2 l
    by (simp add: string_eval fs_eval fs_sigma_def)
  from v k1 k2 p g show ?thesis
    by (intro conjI) simp_all
qed

text \<open>
  Claim C3, amended. After a successful \<open>Put("Foo", v)\<close> of a value that the codec reads
  back, \<open>Get("foo")\<close> and \<open>Get("FOO")\<close> succeed and return \<open>v\<close>. The directory has
  gained the one name \<open>foo.json\<close> and, names in a directory being distinct, lists it once.
  Every two keys, ASCII or not, that differ only in letter case as lower-casing sees it
  have the same path: the directory joined with the percent-escaped lower-cased key and
  \<open>.json\<close>. Keys are read as \<open>strings.ToLower\<close> reads them, character by character,
  and the two characters at a place are equal or one is the lower-case form of the other.
\<close>

theorem Put_Foo_one_file:
  assumes "Put E S fs ''Foo'' v = (None, fs')"
    and "encT E v = Inr j"
    and "decT E (zeroT E) j = (v, None)"
    and "distinct (names fs (dir S))"
    and "differ_only_in_case (unicode_lower E) k1 k2"
  shows "Get E S fs' ''foo'' = Inr v \<and> Get E S fs' ''FOO'' = Inr v \<and>
         set (names fs' (dir S)) = insert ''foo.json'' (set (names fs (dir S))) \<and>
         count_list (names fs' (dir S)) ''foo.json'' = 1 \<and>
         key_path E S ''Foo'' = filepath_Join (dir S) ''foo.json'' \<and>
         key_path E S k2 = key_path E S k1 \<and>
         key_path E S k1 =
           filepath_Join (dir S) (url_PathEscape (strings_ToLower (unicode_lower E) k1) @ ''.json'')"
proof -
  from Put_success_open [OF assms(1)] obtain j' where j': "encT E v = Inr j'"
    "os_Open fs' (key_path E S ''Foo'') =
       Inr (Doc (JObj [(''key'', JStr (coerce_utf8 0 (strings_ToLower (unicode_lower E) ''Foo''))), (''value'', j')]))"
    by auto
  from j'(1) assms(2) have "j' = j" by simp
  with j'(2) have opened: "os_Open fs' (filepath_Join (dir S) ''foo.json'') =
       Inr (Doc (JObj [(''key'', JStr ''foo''), (''value'', j)]))"
    by (simp add: key_path_Foo ToLower_Foo)
  have g1: "Get E S fs' ''foo'' = Inr v"
    by (rule Get_of_envelope [where j = j and k' = "''foo''"]) (simp_all add: key_path_Foo opened assms(3))
  have g2: "Get E S fs' ''FOO'' = Inr v"
    by (rule Get_of_envelope [where j = j and k' = "''foo''"]) (simp_all add: key_path_Foo opened assms(3))
  let ?w = "json_Encode E \<lparr>Key = strings_ToLower (unicode_lower E) ''Foo'', Value = v\<rparr>"
  have w: "fstools_WriteFileFunc fs (filepath_Join (dir S) ''foo.json'') ?w = (None, fs')"
    using assms(1) by (auto simp: Put_key_path key_path_Foo split: prod.splits option.splits)
  have n1: "set (names fs' (dir S)) = insert ''foo.json'' (set (names fs (dir S)))"
    using write_names(1) [OF w] by (simp add: filepath_Join_def)
  have "distinct (names fs' (dir S))"
    using write_names(2) [OF w] assms(4) by (simp add: filepath_Join_def)
  with n1 have n2: "count_list (names fs' (dir S)) ''foo.json'' = 1"
    by (simp add: count_list_distinct)
  have p: "key_path E S k2 = key_path E S k1"
    using differ_ToLower [OF assms(5)] by (simp add: key_path_def)
  have q: "key_path E S k1 =
           filepath_Join (dir S) (url_PathEscape (strings_ToLower (unicode_lower E) k1) @ ''.json'')"
    by (simp add: key_path_def)
  have f: "key_path E S ''Foo'' = filepath_Join (dir S) ''foo.json''"
    by (simp add: key_path_Foo)
  show ?thesis
    by (intro conjI g1 g2 n1 n2 f p q)
qed

theorem Put_Foo_one_file_witness:
  "Put string_env data no_files ''Foo'' ''hello'' = (None :: unit error option, fs_hello) \<and>
   distinct (names no_files (dir data)) \<and>
   differ_only_in_case (unicode_lower string_env)
     [CHR ''F'', CHR 0xC3, CHR 0x89] [CHR ''f'', CHR 0xC3, CHR 0xA9] \<and>
   differ_only_in_case (unicode_lower string_env) ''fOO'' ''Foo'' \<and>
   Get string_env data fs_hello ''foo'' = (Inr ''hello'' :: unit error + string) \<and>
   Get string_env data fs_hello ''FOO'' = (Inr ''hello'' :: unit error + string) \<and>
   names fs_hello (dir data) = [''foo.json''] \<and>
   key_path string_env data ''Foo'' = filepath_Join (dir data) ''foo.json'' \<and>
   key_path string_env data ''fOO'' = filepath_Join (dir data) ''foo.json'' \<and>
   key_path string_env data [CHR ''f'', CHR 0xC3, CHR 0xA9]
     = key_path string_env data [CHR ''F'', CHR 0xC3, CHR 0x89] \<and>
   key_path string_env data [CHR ''F'', CHR 0xC3, CHR 0x89]
     = filepath_Join (dir data) ''f%C3%A9.json''"
proof -
  have h1: "Put string_env data no_files ''Foo'' ''hello'' = (None :: unit error option, fs_hello)"
    by (simp add: string_eval fs_eval json_eval store_eval fs_hello_def)
  have h2: "encT string_env ''hello'' = Inr (JStr ''hello'')"
    by (simp add: string_env_def)
  have h3: "decT string_env (zeroT string_env) (JStr ''hello'') = (''hello'', None)"
    by (simp add: string_env_def)
  have h4: "distinct (names no_files (dir data))"
    by (simp add: fs_eval)
  have h5: "differ_only_in_case (unicode_lower string_env)
              [CHR ''F'', CHR 0xC3, CHR 0x89] [CHR ''f'', CHR 0xC3, CHR 0xA9]"
    by (simp add: differ_only_in_case_def accept_def byte_in_def lead_value_def case_variant_def
          unicode_ToLower_def string_env_def case_table_def)
  have h6: "differ_only_in_case (unicode_lower string_env) ''fOO'' ''Foo''"
    by (simp add: differ_only_in_case_def case_variant_def unicode_ToLower_def)
  have h7: "names fs_hello (dir data) = [''foo.json'']"
    by (simp add: fs_eval fs_hello_def data_def New_def json_eval)
  have l: "strings_ToLower (unicode_lower string_env) [CHR ''F'', CHR 0xC3, CHR 0x89]
             = [CHR ''f'', CHR 0xC3, CHR 0xA9]"
    by (simp add: string_env_def ToLower_beyond_ASCII)
  have e: "url_PathEscape [CHR ''f'', CHR 0xC3, CHR 0xA9] = ''f%C3%A9''"
    by (simp add: shouldEscape_def is_lower_def is_upper_def is_digit_def upperhex_def)
  note r = Put_Foo_one_file [OF h1 h2 h3 h4 h5]
  note r' = Put_Foo_one_file [OF h1 h2 h3 h4 h6]
  note g1 = r [THEN conjunct1]
  note g2 = r [THEN conjunct2, THEN conjunct1]
  note f = r [THEN conjunct2, THEN conjunct2, THEN conjunct2, THEN conjunct2, THEN conjunct1]
  note p = r [THEN conjunct2, THEN conjunct2, THEN conjunct2, THEN conjunct2, THEN conjunct2,
    THEN conjunct1]
  note q = r [THEN conjunct2, THEN conjunct2, THEN conjunct2, THEN conjunct2, THEN conjunct2,
    THEN conjunct2]
  note p' = r' [THEN conjunct2, THEN conjunct2, THEN conjunct2, THEN conjunct2, THEN conjunct2,
    THEN conjunct1]
  have f': "key_path string_env data ''fOO'' = filepath_Join (dir data) ''foo.json''"
    using p' f by simp
  have q': "key_path string_env data [CHR ''F'', CHR 0xC3, CHR 0x89]
              = filepath_Join (dir data) ''f%C3%A9.json''"
    using q by (simp only: l e) simp
  show ?thesis
    by (intro conjI h1 h4 h5 h6 h7 g1 g2 f f' p q')
qed

section \<open>NotExist from Put, Delete and Range\<close>











section \<open>Decoding\<close>
















end
